theory Spec2Isabelle
  imports Complex_Main "HOL-Library.Word"
begin

section \<open>Scalars, vectors, matrices and quaternions\<close>

text \<open>
  The adapters of \<^verbatim>\<open>tf2_sensor_msgs.h\<close> compute with Eigen's fixed-size types over
  \<^verbatim>\<open>double\<close> and \<^verbatim>\<open>float\<close>. Both scalar types are embedded as \<^typ>\<open>real\<close>, and the
  operations written out below are exact: rounding, infinities and NaN are outside this
  model. What Eigen's products round to depends on the order in which it adds, which
  is Eigen's and the compiler's choice and is not in the repository. The theorems
  of this theory therefore do not rest on the arithmetic: they are about which object
  is read and written, in which order, and what a result depends on. Computed values
  appear in examples only.

  The one place where the source changes the scalar type, the implicit conversion of
  the transform's \<^verbatim>\<open>double\<close> components to \<^verbatim>\<open>float\<close> in the point-cloud adapter, is
  kept as an explicit conversion function (see \<open>narrow32\<close> below).

  Eigen itself is a library outside the repository. The operations the adapters call
  are written out here after Eigen's definitions of them: \<^verbatim>\<open>Quaternion(w, x, y, z)\<close>,
  \<^verbatim>\<open>QuaternionBase::toRotationMatrix\<close>, \<^verbatim>\<open>conjugate\<close>, \<^verbatim>\<open>squaredNorm\<close>,
  \<^verbatim>\<open>inverse\<close>, the quaternion product, the 3x3 matrix product and the affine
  \<^verbatim>\<open>Transform\<close>.
\<close>

datatype vec3 = Vec3 (vx: real) (vy: real) (vz: real)

text \<open>\<open>Quat w x y z\<close>: the argument order of Eigen's constructor.\<close>

datatype quat = Quat (qw: real) (qx: real) (qy: real) (qz: real)

text \<open>\<open>Mat3\<close> lists the coefficients row by row: \<open>m00 m01 m02 m10 ...\<close>.\<close>

datatype mat3 = Mat3 (m00: real) (m01: real) (m02: real)
                     (m10: real) (m11: real) (m12: real)
                     (m20: real) (m21: real) (m22: real)

text \<open>\<^verbatim>\<open>boost::array<double, 9>\<close>: exactly nine elements, by type.\<close>

datatype array9 = Array9 real real real real real real real real real

text \<open>
  \<^verbatim>\<open>Eigen::Map<Matrix<double, 3, 3, RowMajor>>\<close> over the data of an array: coefficient
  \<open>(i, j)\<close> is element \<open>3 * i + j\<close>. \<open>map_rowmajor\<close> reads the view, \<open>unmap_rowmajor\<close> is
  the array that an assignment through the view leaves behind.
\<close>

fun map_rowmajor :: "array9 \<Rightarrow> mat3" where
  "map_rowmajor (Array9 a0 a1 a2 a3 a4 a5 a6 a7 a8) = Mat3 a0 a1 a2 a3 a4 a5 a6 a7 a8"

fun unmap_rowmajor :: "mat3 \<Rightarrow> array9" where
  "unmap_rowmajor (Mat3 a00 a01 a02 a10 a11 a12 a20 a21 a22) =
     Array9 a00 a01 a02 a10 a11 a12 a20 a21 a22"

text \<open>The matrix product: \<open>(a * b)(i, j) = a(i, 0) * b(0, j) + a(i, 1) * b(1, j) + a(i, 2) * b(2, j)\<close>.\<close>

fun mat_mul :: "mat3 \<Rightarrow> mat3 \<Rightarrow> mat3" where
  "mat_mul (Mat3 a00 a01 a02 a10 a11 a12 a20 a21 a22)
           (Mat3 b00 b01 b02 b10 b11 b12 b20 b21 b22) =
     Mat3 (a00 * b00 + a01 * b10 + a02 * b20)
          (a00 * b01 + a01 * b11 + a02 * b21)
          (a00 * b02 + a01 * b12 + a02 * b22)
          (a10 * b00 + a11 * b10 + a12 * b20)
          (a10 * b01 + a11 * b11 + a12 * b21)
          (a10 * b02 + a11 * b12 + a12 * b22)
          (a20 * b00 + a21 * b10 + a22 * b20)
          (a20 * b01 + a21 * b11 + a22 * b21)
          (a20 * b02 + a21 * b12 + a22 * b22)"

fun mat_vec :: "mat3 \<Rightarrow> vec3 \<Rightarrow> vec3" where
  "mat_vec (Mat3 a00 a01 a02 a10 a11 a12 a20 a21 a22) (Vec3 x y z) =
     Vec3 (a00 * x + a01 * y + a02 * z)
          (a10 * x + a11 * y + a12 * z)
          (a20 * x + a21 * y + a22 * z)"

fun vec_add :: "vec3 \<Rightarrow> vec3 \<Rightarrow> vec3" where
  "vec_add (Vec3 a b c) (Vec3 x y z) = Vec3 (a + x) (b + y) (c + z)"

text \<open>\<^verbatim>\<open>QuaternionBase::toRotationMatrix\<close>, with Eigen's intermediate products.\<close>

fun toRotationMatrix :: "quat \<Rightarrow> mat3" where
  "toRotationMatrix (Quat w x y z) =
     (let tx = 2 * x; ty = 2 * y; tz = 2 * z;
          twx = tx * w; twy = ty * w; twz = tz * w;
          txx = tx * x; txy = ty * x; txz = tz * x;
          tyy = ty * y; tyz = tz * y; tzz = tz * z
      in Mat3 (1 - (tyy + tzz)) (txy - twz) (txz + twy)
              (txy + twz) (1 - (txx + tzz)) (tyz - twx)
              (txz - twy) (tyz + twx) (1 - (txx + tyy)))"

fun conjugate :: "quat \<Rightarrow> quat" where
  "conjugate (Quat w x y z) = Quat w (- x) (- y) (- z)"

fun squaredNorm :: "quat \<Rightarrow> real" where
  "squaredNorm (Quat w x y z) = x * x + y * y + z * z + w * w"

text \<open>
  \<^verbatim>\<open>QuaternionBase::inverse\<close>: the conjugate divided by the squared norm, and the zero
  quaternion ("an invalid result to flag the error") when the squared norm is not positive.
\<close>

definition inverse_quat :: "quat \<Rightarrow> quat" where
  "inverse_quat q =
     (let n2 = squaredNorm q
      in if n2 > 0
         then (case conjugate q of Quat w x y z \<Rightarrow> Quat (w / n2) (x / n2) (y / n2) (z / n2))
         else Quat 0 0 0 0)"

text \<open>The quaternion product \<^verbatim>\<open>a * b\<close>.\<close>

fun quat_mul :: "quat \<Rightarrow> quat \<Rightarrow> quat" where
  "quat_mul (Quat aw ax ay az) (Quat bw bx by bz) =
     Quat (aw * bw - ax * bx - ay * by - az * bz)
          (aw * bx + ax * bw + ay * bz - az * by)
          (aw * by + ay * bw + az * bx - ax * bz)
          (aw * bz + az * bw + ax * by - ay * bx)"

text \<open>
  A rotation times a 3x3 matrix, and a 3x3 matrix times a rotation
  (\<^verbatim>\<open>RotationBase::operator*\<close>): the rotation is converted with \<open>toRotationMatrix\<close> and
  the product is returned by value as a matrix.
\<close>

definition rot_times_mat :: "quat \<Rightarrow> mat3 \<Rightarrow> mat3" where
  "rot_times_mat r m = mat_mul (toRotationMatrix r) m"

definition mat_times_rot :: "mat3 \<Rightarrow> quat \<Rightarrow> mat3" where
  "mat_times_rot m r = mat_mul m (toRotationMatrix r)"

section \<open>The covariance transform\<close>

text \<open>
  \<^verbatim>\<open>transformCovariance(in, out, r)\<close>: \<^verbatim>\<open>cov_out = r * cov_in * r.inverse()\<close>. Both
  products return a matrix by value, so the right-hand side is a temporary that is
  complete before the first element of \<^verbatim>\<open>out\<close> is written; the function is therefore a
  function from the input array to the array left in \<^verbatim>\<open>out\<close>.
\<close>

definition transformCovariance :: "array9 \<Rightarrow> quat \<Rightarrow> array9" where
  "transformCovariance cov_in r =
     unmap_rowmajor (mat_times_rot (rot_times_mat r (map_rowmajor cov_in)) (inverse_quat r))"

text \<open>
  \<^verbatim>\<open>Eigen::Transform<Scalar, 3, Affine>\<close>: a linear part and a translation part.
  \<open>affine_of_rot\<close> is the constructor from a rotation (translation zero),
  \<open>pretranslate\<close> adds to the translation part, \<open>translation_times_rot\<close> is
  \<^verbatim>\<open>Translation3 * Quaternion\<close> (the rotation as a transform, pretranslated), and
  \<open>affine_apply\<close> is \<^verbatim>\<open>t * v\<close>: the translation plus the linear part times \<open>v\<close>.
\<close>

datatype affine = Affine (linear: mat3) (affine_translation: vec3)

definition affine_of_rot :: "quat \<Rightarrow> affine" where
  "affine_of_rot r = Affine (toRotationMatrix r) (Vec3 0 0 0)"

fun pretranslate :: "vec3 \<Rightarrow> affine \<Rightarrow> affine" where
  "pretranslate tr (Affine l t) = Affine l (vec_add t tr)"

definition translation_times_rot :: "vec3 \<Rightarrow> quat \<Rightarrow> affine" where
  "translation_times_rot tr q = pretranslate tr (affine_of_rot q)"

fun affine_apply :: "affine \<Rightarrow> vec3 \<Rightarrow> vec3" where
  "affine_apply (Affine l t) v = vec_add t (mat_vec l v)"

section \<open>Messages and the store\<close>

text \<open>
  The message types of \<^verbatim>\<open>std_msgs\<close>, \<^verbatim>\<open>geometry_msgs\<close> and \<^verbatim>\<open>sensor_msgs\<close> are
  declared outside the repository; the records below carry their fields. Every stamped
  message starts with a header.
\<close>

record Header =
  seq :: "32 word"
  stamp :: "32 word \<times> 32 word"
  frame_id :: string

record Vector3 =
  vector_x :: real
  vector_y :: real
  vector_z :: real

record Quaternion =
  quaternion_x :: real
  quaternion_y :: real
  quaternion_z :: real
  quaternion_w :: real

record Transform =
  translation :: Vector3
  rotation :: Quaternion

record Stamped =
  header :: Header

record TransformStamped = Stamped +
  child_frame_id :: string
  transform :: Transform

record Imu = Stamped +
  orientation :: Quaternion
  orientation_covariance :: array9
  angular_velocity :: Vector3
  angular_velocity_covariance :: array9
  linear_acceleration :: Vector3
  linear_acceleration_covariance :: array9

record MagneticField = Stamped +
  magnetic_field :: Vector3
  magnetic_field_covariance :: array9

record PointField =
  pf_name :: string
  pf_offset :: "32 word"
  pf_datatype :: "8 word"
  pf_count :: "32 word"

text \<open>
  The byte buffer \<^verbatim>\<open>data\<close> of a point cloud is modelled as the sequence of its points,
  the way the six \<^verbatim>\<open>PointCloud2Iterator<float>\<close> of the adapter walk it: each point has
  the three single-precision channels named x, y and z and the remaining bytes of the
  point (\<open>rest\<close>: the other channels and padding). This is the view of a well-formed
  cloud, whose fields x, y and z exist, are of type float and do not overlap, and whose
  buffer is a whole number of points; the iterators' constructors (which throw when a
  field is missing) and the byte layout are outside the model.
\<close>

record point =
  px :: real
  py :: real
  pz :: real
  rest :: "8 word list"

record PointCloud2 = Stamped +
  height :: "32 word"
  width :: "32 word"
  point_fields :: "PointField list"
  is_bigendian :: bool
  point_step :: "32 word"
  row_step :: "32 word"
  data :: "point list"
  is_dense :: bool

text \<open>
  The adapters take the input by const reference and the output by reference, and the
  two may be the same object. A store maps the address of a message to its value; an
  adapter reads and writes the store through the two addresses it is given, statement
  by statement, so that equal addresses are one object. The transform is an object of
  another type and cannot be either of them.
\<close>

type_synonym addr = nat

type_synonym 'a store = "addr \<Rightarrow> 'a"

section \<open>The conversion from double to float\<close>

text \<open>
  \<open>round_half_even\<close> rounds to the nearest integer, ties to the even one. \<open>binade k a 0\<close>
  is the exponent \<open>e\<close> with \<open>2 ^ e \<le> a < 2 ^ (e + 1)\<close> for a positive \<open>a\<close>, found by
  halving or doubling at most \<open>k\<close> times. \<open>narrow32\<close> is the conversion of a \<^verbatim>\<open>double\<close>
  to IEEE binary32 in the default rounding mode: the nearest multiple of the unit in the
  last place of 24 significant bits (of \<open>2 ^ - 149\<close> below the normal range), ties to
  even. Magnitudes from \<open>2 ^ 128\<close> on, which C++ converts to an infinity, have no value in
  \<^typ>\<open>real\<close> and are outside the model.
\<close>

definition round_half_even :: "real \<Rightarrow> int" where
  "round_half_even r =
     (let f = \<lfloor>r\<rfloor>; d = r - of_int f
      in if d < 1 / 2 then f else if 1 / 2 < d then f + 1 else if even f then f else f + 1)"

fun binade :: "nat \<Rightarrow> real \<Rightarrow> int \<Rightarrow> int" where
  "binade 0 a e = e"
| "binade (Suc k) a e =
     (if 2 \<le> a then binade k (a / 2) (e + 1)
      else if a < 1 then binade k (a * 2) (e - 1)
      else e)"

definition narrow32 :: "real \<Rightarrow> real" where
  "narrow32 v =
     (if v = 0 then 0
      else let e = max (binade 300 \<bar>v\<bar> 0) (- 126);
               u = 2 powi (e - 23)
           in of_int (round_half_even (v / u)) * u)"

section \<open>The point-cloud adapter\<close>

text \<open>
  \<^verbatim>\<open>doTransform(const PointCloud2 &p_in, PointCloud2 &p_out, const TransformStamped &t_in)\<close>.
  The function takes the conversion from \<^verbatim>\<open>double\<close> to \<^verbatim>\<open>float\<close> as its first argument
  \<open>narrow\<close>: the source passes the seven \<^verbatim>\<open>double\<close> components of the transform to the
  constructors of \<^verbatim>\<open>Translation3f\<close> and \<^verbatim>\<open>Quaternion<float>\<close>, which take \<^verbatim>\<open>float\<close>.

  \<open>read_point\<close> is \<^verbatim>\<open>Eigen::Vector3f(*x_in, *y_in, *z_in)\<close> with the iterators at point
  \<open>i\<close>; \<open>write_x\<close>, \<open>write_y\<close> and \<open>write_z\<close> are the three assignments through the output
  iterators. \<open>pc_loop\<close> is the \<^verbatim>\<open>for\<close> loop: the iterators start at point 0 and the end
  is fixed when they are made, so "not at the end" is \<open>i < n\<close>. Inside the loop \<open>i\<close> is
  below the number of points of both clouds, where \<open>!\<close> and list update are the
  element access of the source.
\<close>

definition read_point :: "PointCloud2 \<Rightarrow> nat \<Rightarrow> vec3" where
  "read_point p i = Vec3 (px (data p ! i)) (py (data p ! i)) (pz (data p ! i))"

definition write_x :: "addr \<Rightarrow> nat \<Rightarrow> real \<Rightarrow> PointCloud2 store \<Rightarrow> PointCloud2 store" where
  "write_x a i v s = s(a := (s a)\<lparr>data := (data (s a))[i := (data (s a) ! i)\<lparr>px := v\<rparr>]\<rparr>)"

definition write_y :: "addr \<Rightarrow> nat \<Rightarrow> real \<Rightarrow> PointCloud2 store \<Rightarrow> PointCloud2 store" where
  "write_y a i v s = s(a := (s a)\<lparr>data := (data (s a))[i := (data (s a) ! i)\<lparr>py := v\<rparr>]\<rparr>)"

definition write_z :: "addr \<Rightarrow> nat \<Rightarrow> real \<Rightarrow> PointCloud2 store \<Rightarrow> PointCloud2 store" where
  "write_z a i v s = s(a := (s a)\<lparr>data := (data (s a))[i := (data (s a) ! i)\<lparr>pz := v\<rparr>]\<rparr>)"

definition pc_body :: "affine \<Rightarrow> addr \<Rightarrow> addr \<Rightarrow> nat \<Rightarrow> PointCloud2 store \<Rightarrow> PointCloud2 store" where
  "pc_body t p_in p_out i s =
     (let point = affine_apply t (read_point (s p_in) i);
          s1 = write_x p_out i (vx point) s;
          s2 = write_y p_out i (vy point) s1
      in write_z p_out i (vz point) s2)"

function pc_loop :: "affine \<Rightarrow> addr \<Rightarrow> addr \<Rightarrow> nat \<Rightarrow> nat \<Rightarrow> PointCloud2 store \<Rightarrow> PointCloud2 store" where
  "pc_loop t p_in p_out i n s =
     (if i < n then pc_loop t p_in p_out (Suc i) n (pc_body t p_in p_out i s) else s)"
  by pat_completeness auto
termination
  by (relation "measure (\<lambda>(t, p_in, p_out, i, n, s). n - i)") auto

declare pc_loop.simps [simp del]

text \<open>
  The transform \<^verbatim>\<open>t\<close> of lines 65 to 68: \<open>pc_translation\<close> is the
  \<^verbatim>\<open>Eigen::Translation3f\<close> and \<open>pc_rotation\<close> the \<^verbatim>\<open>Eigen::Quaternion<float>\<close>, both made
  of converted components, and \<open>pc_affine\<close> is their product.
\<close>

definition pc_translation :: "(real \<Rightarrow> real) \<Rightarrow> TransformStamped \<Rightarrow> vec3" where
  "pc_translation narrow t_in =
     Vec3 (narrow (vector_x (translation (transform t_in))))
          (narrow (vector_y (translation (transform t_in))))
          (narrow (vector_z (translation (transform t_in))))"

definition pc_rotation :: "(real \<Rightarrow> real) \<Rightarrow> TransformStamped \<Rightarrow> quat" where
  "pc_rotation narrow t_in =
     Quat (narrow (quaternion_w (rotation (transform t_in))))
          (narrow (quaternion_x (rotation (transform t_in))))
          (narrow (quaternion_y (rotation (transform t_in))))
          (narrow (quaternion_z (rotation (transform t_in))))"

definition pc_affine :: "(real \<Rightarrow> real) \<Rightarrow> TransformStamped \<Rightarrow> affine" where
  "pc_affine narrow t_in = translation_times_rot (pc_translation narrow t_in) (pc_rotation narrow t_in)"

definition doTransform_PointCloud2 ::
  "(real \<Rightarrow> real) \<Rightarrow> PointCloud2 store \<Rightarrow> addr \<Rightarrow> addr \<Rightarrow> TransformStamped \<Rightarrow> PointCloud2 store" where
  "doTransform_PointCloud2 narrow s p_in p_out t_in =
     (let s1 = s(p_out := s p_in);
          s2 = s1(p_out := (s1 p_out)\<lparr>header := header t_in\<rparr>);
          t = pc_affine narrow t_in
      in pc_loop t p_in p_out 0 (length (data (s2 p_in))) s2)"

section \<open>The point-cloud adapter with the field check and open single-precision operations\<close>

text \<open>
  The same function once more, with the two things the model above leaves out.

  First, each of the six \<^verbatim>\<open>PointCloud2Iterator\<close> constructors looks its field name up in
  the field descriptions of its cloud and throws \<^verbatim>\<open>std::runtime_error\<close> when no description
  has that name. The lookup is \<open>has_field\<close>. The constructors run after the first two
  statements and after the transform is made, so a call that throws leaves the store as
  those two statements made it: \<open>Thrown\<close> carries that store, \<open>Returned\<close> the store at
  the end of a call that returns.

  Second, the two single-precision operations of Eigen that the function uses are
  arguments: \<open>mk\<close> is \<^verbatim>\<open>Translation3f * Quaternion<float>\<close> and \<open>app\<close> is
  \<^verbatim>\<open>Transform<float,3,Affine> * Vector3f\<close>, with any type \<open>'tf\<close> for the transform between
  them. What they compute, and how they round, is Eigen's; the function only says which
  values they are given and where their results go. With \<open>translation_times_rot\<close> and
  \<open>affine_apply\<close> for them, a call that returns is the model above.
\<close>

datatype call_result =
  returned: Returned (store_of: "PointCloud2 store")
| Thrown (store_of: "PointCloud2 store")

definition has_field :: "string \<Rightarrow> PointCloud2 \<Rightarrow> bool" where
  "has_field name p \<longleftrightarrow> name \<in> set (map pf_name (point_fields p))"

definition pc_body_with ::
  "('tf \<Rightarrow> vec3 \<Rightarrow> vec3) \<Rightarrow> 'tf \<Rightarrow> addr \<Rightarrow> addr \<Rightarrow> nat \<Rightarrow> PointCloud2 store \<Rightarrow> PointCloud2 store" where
  "pc_body_with app t p_in p_out i s =
     (let point = app t (read_point (s p_in) i);
          s1 = write_x p_out i (vx point) s;
          s2 = write_y p_out i (vy point) s1
      in write_z p_out i (vz point) s2)"

function pc_loop_with ::
  "('tf \<Rightarrow> vec3 \<Rightarrow> vec3) \<Rightarrow> 'tf \<Rightarrow> addr \<Rightarrow> addr \<Rightarrow> nat \<Rightarrow> nat \<Rightarrow> PointCloud2 store \<Rightarrow> PointCloud2 store" where
  "pc_loop_with app t p_in p_out i n s =
     (if i < n
      then pc_loop_with app t p_in p_out (Suc i) n (pc_body_with app t p_in p_out i s)
      else s)"
  by pat_completeness auto
termination
  by (relation "measure (\<lambda>(app, t, p_in, p_out, i, n, s). n - i)") auto

declare pc_loop_with.simps [simp del]

definition doTransform_PointCloud2_full ::
  "(vec3 \<Rightarrow> quat \<Rightarrow> 'tf) \<Rightarrow> ('tf \<Rightarrow> vec3 \<Rightarrow> vec3) \<Rightarrow> (real \<Rightarrow> real) \<Rightarrow>
   PointCloud2 store \<Rightarrow> addr \<Rightarrow> addr \<Rightarrow> TransformStamped \<Rightarrow> call_result" where
  "doTransform_PointCloud2_full mk app narrow s p_in p_out t_in =
     (let s1 = s(p_out := s p_in);
          s2 = s1(p_out := (s1 p_out)\<lparr>header := header t_in\<rparr>);
          t = mk (pc_translation narrow t_in) (pc_rotation narrow t_in)
      in if has_field ''x'' (s2 p_in) \<and> has_field ''y'' (s2 p_in) \<and> has_field ''z'' (s2 p_in) \<and>
            has_field ''x'' (s2 p_out) \<and> has_field ''y'' (s2 p_out) \<and> has_field ''z'' (s2 p_out)
         then Returned (pc_loop_with app t p_in p_out 0 (length (data (s2 p_in))) s2)
         else Thrown s2)"

section \<open>The IMU and magnetic-field adapters\<close>

text \<open>
  \<open>rotation_of\<close> is \<^verbatim>\<open>Eigen::Quaternion<double> r(rotation.w, rotation.x, rotation.y,
  rotation.z)\<close>. Each adapter is the sequence of the source's statements on the store:
  a right-hand side reads the input object in the store as it is at that statement, and
  each assignment to a field of the output object is one update.
\<close>

definition rotation_of :: "TransformStamped \<Rightarrow> quat" where
  "rotation_of t_in =
     Quat (quaternion_w (rotation (transform t_in))) (quaternion_x (rotation (transform t_in)))
          (quaternion_y (rotation (transform t_in))) (quaternion_z (rotation (transform t_in)))"

definition vec3_of :: "Vector3 \<Rightarrow> vec3" where
  "vec3_of v = Vec3 (vector_x v) (vector_y v) (vector_z v)"

definition quat_of :: "Quaternion \<Rightarrow> quat" where
  "quat_of q = Quat (quaternion_w q) (quaternion_x q) (quaternion_y q) (quaternion_z q)"

definition doTransform_Imu :: "Imu store \<Rightarrow> addr \<Rightarrow> addr \<Rightarrow> TransformStamped \<Rightarrow> Imu store" where
  "doTransform_Imu s imu_in imu_out t_in =
     (let s1 = s(imu_out := (s imu_out)\<lparr>header := header t_in\<rparr>);
          r = rotation_of t_in;
          t = affine_of_rot r;
          vel = affine_apply t (vec3_of (angular_velocity (s1 imu_in)));
          s2 = s1(imu_out := (s1 imu_out)\<lparr>angular_velocity :=
                 (angular_velocity (s1 imu_out))\<lparr>vector_x := vx vel\<rparr>\<rparr>);
          s3 = s2(imu_out := (s2 imu_out)\<lparr>angular_velocity :=
                 (angular_velocity (s2 imu_out))\<lparr>vector_y := vy vel\<rparr>\<rparr>);
          s4 = s3(imu_out := (s3 imu_out)\<lparr>angular_velocity :=
                 (angular_velocity (s3 imu_out))\<lparr>vector_z := vz vel\<rparr>\<rparr>);
          s5 = s4(imu_out := (s4 imu_out)\<lparr>angular_velocity_covariance :=
                 transformCovariance (angular_velocity_covariance (s4 imu_in)) r\<rparr>);
          accel = affine_apply t (vec3_of (linear_acceleration (s5 imu_in)));
          s6 = s5(imu_out := (s5 imu_out)\<lparr>linear_acceleration :=
                 (linear_acceleration (s5 imu_out))\<lparr>vector_x := vx accel\<rparr>\<rparr>);
          s7 = s6(imu_out := (s6 imu_out)\<lparr>linear_acceleration :=
                 (linear_acceleration (s6 imu_out))\<lparr>vector_y := vy accel\<rparr>\<rparr>);
          s8 = s7(imu_out := (s7 imu_out)\<lparr>linear_acceleration :=
                 (linear_acceleration (s7 imu_out))\<lparr>vector_z := vz accel\<rparr>\<rparr>);
          s9 = s8(imu_out := (s8 imu_out)\<lparr>linear_acceleration_covariance :=
                 transformCovariance (linear_acceleration_covariance (s8 imu_in)) r\<rparr>);
          orientation' = quat_mul (quat_mul r (quat_of (orientation (s9 imu_in)))) (inverse_quat r);
          s10 = s9(imu_out := (s9 imu_out)\<lparr>orientation :=
                 (orientation (s9 imu_out))\<lparr>quaternion_w := qw orientation'\<rparr>\<rparr>);
          s11 = s10(imu_out := (s10 imu_out)\<lparr>orientation :=
                 (orientation (s10 imu_out))\<lparr>quaternion_x := qx orientation'\<rparr>\<rparr>);
          s12 = s11(imu_out := (s11 imu_out)\<lparr>orientation :=
                 (orientation (s11 imu_out))\<lparr>quaternion_y := qy orientation'\<rparr>\<rparr>);
          s13 = s12(imu_out := (s12 imu_out)\<lparr>orientation :=
                 (orientation (s12 imu_out))\<lparr>quaternion_z := qz orientation'\<rparr>\<rparr>)
      in s13(imu_out := (s13 imu_out)\<lparr>orientation_covariance :=
                 transformCovariance (orientation_covariance (s13 imu_in)) r\<rparr>))"

definition doTransform_MagneticField ::
  "MagneticField store \<Rightarrow> addr \<Rightarrow> addr \<Rightarrow> TransformStamped \<Rightarrow> MagneticField store" where
  "doTransform_MagneticField s mag_in mag_out t_in =
     (let s1 = s(mag_out := (s mag_out)\<lparr>header := header t_in\<rparr>);
          r = rotation_of t_in;
          t = affine_of_rot r;
          mag = affine_apply t (vec3_of (magnetic_field (s1 mag_in)));
          s2 = s1(mag_out := (s1 mag_out)\<lparr>magnetic_field :=
                 (magnetic_field (s1 mag_out))\<lparr>vector_x := vx mag\<rparr>\<rparr>);
          s3 = s2(mag_out := (s2 mag_out)\<lparr>magnetic_field :=
                 (magnetic_field (s2 mag_out))\<lparr>vector_y := vy mag\<rparr>\<rparr>);
          s4 = s3(mag_out := (s3 mag_out)\<lparr>magnetic_field :=
                 (magnetic_field (s3 mag_out))\<lparr>vector_z := vz mag\<rparr>\<rparr>)
      in s4(mag_out := (s4 mag_out)\<lparr>magnetic_field_covariance :=
                 transformCovariance (magnetic_field_covariance (s4 mag_in)) r\<rparr>))"

section \<open>The contracts of the specification\<close>

text \<open>
  The spec's operations, after its words. \<open>transformPoint\<close>: "v' = rotation v +
  translation, where rotation acts as the corresponding 3x3 orthonormal matrix derived
  from the unit quaternion". \<open>transformVector\<close>: "v' = rotation v".
  \<open>transformOrientation\<close>: "q' = rotation * q * rotation inverse (quaternion conjugation)".
  \<open>imu_transformed\<close> and \<open>mag_transformed\<close> are the spec's composite operations on a
  sample: the header from the transform, \<open>transformVector\<close> on each vector,
  \<open>transformCovariance\<close> on each covariance with the same rotation, and
  \<open>transformOrientation\<close> on the orientation.
\<close>

definition transformPoint :: "quat \<Rightarrow> vec3 \<Rightarrow> vec3 \<Rightarrow> vec3" where
  "transformPoint rot tr v = vec_add (mat_vec (toRotationMatrix rot) v) tr"

definition transformVector :: "quat \<Rightarrow> vec3 \<Rightarrow> vec3" where
  "transformVector rot v = mat_vec (toRotationMatrix rot) v"

definition transformOrientation :: "quat \<Rightarrow> quat \<Rightarrow> quat" where
  "transformOrientation rot q = quat_mul (quat_mul rot q) (inverse_quat rot)"

definition vector3_of :: "vec3 \<Rightarrow> Vector3" where
  "vector3_of v = \<lparr>vector_x = vx v, vector_y = vy v, vector_z = vz v\<rparr>"

definition quaternion_of :: "quat \<Rightarrow> Quaternion" where
  "quaternion_of q =
     \<lparr>quaternion_x = qx q, quaternion_y = qy q, quaternion_z = qz q, quaternion_w = qw q\<rparr>"

definition imu_transformed :: "Imu \<Rightarrow> TransformStamped \<Rightarrow> Imu" where
  "imu_transformed x t =
     \<lparr>header = header t,
      orientation = quaternion_of (transformOrientation (rotation_of t) (quat_of (orientation x))),
      orientation_covariance = transformCovariance (orientation_covariance x) (rotation_of t),
      angular_velocity =
        vector3_of (transformVector (rotation_of t) (vec3_of (angular_velocity x))),
      angular_velocity_covariance =
        transformCovariance (angular_velocity_covariance x) (rotation_of t),
      linear_acceleration =
        vector3_of (transformVector (rotation_of t) (vec3_of (linear_acceleration x))),
      linear_acceleration_covariance =
        transformCovariance (linear_acceleration_covariance x) (rotation_of t)\<rparr>"

definition mag_transformed :: "MagneticField \<Rightarrow> TransformStamped \<Rightarrow> MagneticField" where
  "mag_transformed x t =
     \<lparr>header = header t,
      magnetic_field = vector3_of (transformVector (rotation_of t) (vec3_of (magnetic_field x))),
      magnetic_field_covariance =
        transformCovariance (magnetic_field_covariance x) (rotation_of t)\<rparr>"

text \<open>
  The spec on precision in the point-cloud path: "the rotation matrix is still built from
  a double-precision quaternion and narrowed at the point of application".
  \<open>pc_affine_late\<close> is that transform: the matrix of the unconverted quaternion, each
  coefficient converted afterwards.
\<close>

fun mat_map :: "(real \<Rightarrow> real) \<Rightarrow> mat3 \<Rightarrow> mat3" where
  "mat_map f (Mat3 a00 a01 a02 a10 a11 a12 a20 a21 a22) =
     Mat3 (f a00) (f a01) (f a02) (f a10) (f a11) (f a12) (f a20) (f a21) (f a22)"

definition pc_affine_late :: "(real \<Rightarrow> real) \<Rightarrow> TransformStamped \<Rightarrow> affine" where
  "pc_affine_late narrow t_in =
     Affine (mat_map narrow (toRotationMatrix (rotation_of t_in))) (pc_translation narrow t_in)"

section \<open>Auxiliary definitions for the proofs\<close>

text \<open>What one pass of the loop body does to a point: the three channels are replaced.\<close>

definition transform_pt :: "affine \<Rightarrow> point \<Rightarrow> point" where
  "transform_pt T p =
     (let v = affine_apply T (Vec3 (px p) (py p) (pz p))
      in p\<lparr>px := vx v, py := vy v, pz := vz v\<rparr>)"

definition transform_pt_with :: "('tf \<Rightarrow> vec3 \<Rightarrow> vec3) \<Rightarrow> 'tf \<Rightarrow> point \<Rightarrow> point" where
  "transform_pt_with app T p =
     (let v = app T (Vec3 (px p) (py p) (pz p))
      in p\<lparr>px := vx v, py := vy v, pz := vz v\<rparr>)"

section \<open>Example inputs\<close>

text \<open>
  A cloud of two points with an extra four-byte channel, an IMU sample and a
  magnetic-field sample, all stamped in frame \<open>base\<close>, and transforms into frame \<open>map\<close>:
  \<open>cycle\<close> is the rotation by a third of a turn about the diagonal (it sends the axes x to
  y, y to z, z to x) with translation \<open>(4, 5, 6)\<close>, and \<open>cycle_far\<close> the same rotation with
  another translation and child frame. \<open>fine\<close> and \<open>coarse\<close> differ in one component of
  the rotation by \<open>2 ^ - 24\<close>, half a unit in the last place of single precision. \<open>tilt\<close>
  has the doubles nearest to 0.6 and 0.8 as the w and z of its rotation. \<open>shift\<close> is the
  identity rotation with translation \<open>(1, 0, 0)\<close>. \<open>cloud_no_x\<close> is the cloud without the
  description of a field named x, and \<open>cloud_far\<close> the cloud with the single point
  \<open>(2 ^ 24, 0, 0)\<close>.
\<close>

definition base_header :: Header where
  "base_header = \<lparr>seq = 7, stamp = (100, 5), frame_id = ''base''\<rparr>"

definition map_header :: Header where
  "map_header = \<lparr>seq = 1, stamp = (200, 0), frame_id = ''map''\<rparr>"

definition cloud2 :: PointCloud2 where
  "cloud2 =
     \<lparr>header = base_header, height = 1, width = 2,
      point_fields =
        [\<lparr>pf_name = ''x'', pf_offset = 0, pf_datatype = 7, pf_count = 1\<rparr>,
         \<lparr>pf_name = ''y'', pf_offset = 4, pf_datatype = 7, pf_count = 1\<rparr>,
         \<lparr>pf_name = ''z'', pf_offset = 8, pf_datatype = 7, pf_count = 1\<rparr>,
         \<lparr>pf_name = ''intensity'', pf_offset = 12, pf_datatype = 7, pf_count = 1\<rparr>],
      is_bigendian = False, point_step = 16, row_step = 32,
      data = [\<lparr>px = 1, py = 0, pz = 0, rest = [1, 2, 3, 4]\<rparr>,
              \<lparr>px = 0, py = 1, pz = 2, rest = [5, 6, 7, 8]\<rparr>],
      is_dense = True\<rparr>"

definition imu1 :: Imu where
  "imu1 =
     \<lparr>header = base_header,
      orientation = \<lparr>quaternion_x = 3 / 5, quaternion_y = 4 / 5, quaternion_z = 0, quaternion_w = 0\<rparr>,
      orientation_covariance = Array9 1 2 3 2 4 5 3 5 6,
      angular_velocity = \<lparr>vector_x = 1, vector_y = 2, vector_z = 3\<rparr>,
      angular_velocity_covariance = Array9 1 0 0 0 2 0 0 0 3,
      linear_acceleration = \<lparr>vector_x = 0, vector_y = 0, vector_z = 10\<rparr>,
      linear_acceleration_covariance = Array9 1 2 3 4 5 6 7 8 9\<rparr>"

definition mag1 :: MagneticField where
  "mag1 =
     \<lparr>header = base_header,
      magnetic_field = \<lparr>vector_x = 1, vector_y = 2, vector_z = 3\<rparr>,
      magnetic_field_covariance = Array9 1 0 0 0 2 0 0 0 3\<rparr>"

definition cycle :: TransformStamped where
  "cycle =
     \<lparr>header = map_header, child_frame_id = ''odom'',
      transform = \<lparr>translation = \<lparr>vector_x = 4, vector_y = 5, vector_z = 6\<rparr>,
                   rotation = \<lparr>quaternion_x = 1 / 2, quaternion_y = 1 / 2, quaternion_z = 1 / 2,
                               quaternion_w = 1 / 2\<rparr>\<rparr>\<rparr>"

definition cycle_far :: TransformStamped where
  "cycle_far =
     \<lparr>header = map_header, child_frame_id = ''elsewhere'',
      transform = \<lparr>translation = \<lparr>vector_x = 70, vector_y = - 8, vector_z = 9 / 2\<rparr>,
                   rotation = \<lparr>quaternion_x = 1 / 2, quaternion_y = 1 / 2, quaternion_z = 1 / 2,
                               quaternion_w = 1 / 2\<rparr>\<rparr>\<rparr>"

definition fine :: TransformStamped where
  "fine =
     \<lparr>header = map_header, child_frame_id = ''base'',
      transform = \<lparr>translation = \<lparr>vector_x = 0, vector_y = 0, vector_z = 0\<rparr>,
                   rotation = \<lparr>quaternion_x = 16777217 / 16777216, quaternion_y = 0,
                               quaternion_z = 0, quaternion_w = 0\<rparr>\<rparr>\<rparr>"

definition coarse :: TransformStamped where
  "coarse =
     \<lparr>header = map_header, child_frame_id = ''base'',
      transform = \<lparr>translation = \<lparr>vector_x = 0, vector_y = 0, vector_z = 0\<rparr>,
                   rotation = \<lparr>quaternion_x = 1, quaternion_y = 0,
                               quaternion_z = 0, quaternion_w = 0\<rparr>\<rparr>\<rparr>"

definition tilt :: TransformStamped where
  "tilt =
     \<lparr>header = map_header, child_frame_id = ''base'',
      transform = \<lparr>translation = \<lparr>vector_x = 0, vector_y = 0, vector_z = 0\<rparr>,
                   rotation = \<lparr>quaternion_x = 0, quaternion_y = 0,
                               quaternion_z = 3602879701896397 / 4503599627370496,
                               quaternion_w = 5404319552844595 / 9007199254740992\<rparr>\<rparr>\<rparr>"




section \<open>The IMU and magnetic-field adapters as functions of the input sample\<close>

lemma affine_apply_of_rot: "affine_apply (affine_of_rot r) v = transformVector r v"
  by (cases v; cases "toRotationMatrix r") (simp add: affine_of_rot_def transformVector_def)

lemma doTransform_Imu_eq: "doTransform_Imu s a b t = s(b := imu_transformed (s a) t)"
  by (cases "a = b")
     (simp_all add: doTransform_Imu_def Let_def affine_apply_of_rot imu_transformed_def
        vector3_of_def quaternion_of_def transformOrientation_def fun_eq_iff)

lemma doTransform_MagneticField_eq:
  "doTransform_MagneticField s a b t = s(b := mag_transformed (s a) t)"
  by (cases "a = b")
     (simp_all add: doTransform_MagneticField_def Let_def affine_apply_of_rot mag_transformed_def
        vector3_of_def fun_eq_iff)

text \<open>
  C4. The outputs of the IMU and magnetic-field adapters do not depend on the
  translation of the transform: two transforms with the same rotation and the same
  header leave the same store, whatever their translations (and child frames), for
  every input sample and every pair of addresses.
\<close>

theorem doTransform_translation_independent:
  assumes "rotation (transform t) = rotation (transform t')" and "header t = header t'"
  shows "doTransform_Imu s a b t = doTransform_Imu s a b t'
         \<and> doTransform_MagneticField m a b t = doTransform_MagneticField m a b t'"
  using assms
  by (simp add: doTransform_Imu_eq doTransform_MagneticField_eq imu_transformed_def
        mag_transformed_def rotation_of_def)

theorem doTransform_translation_independent_witness:
  "rotation (transform cycle) = rotation (transform cycle_far)
   \<and> header cycle = header cycle_far
   \<and> translation (transform cycle) \<noteq> translation (transform cycle_far)
   \<and> doTransform_Imu (\<lambda>_. imu1) 0 1 cycle = doTransform_Imu (\<lambda>_. imu1) 0 1 cycle_far
   \<and> doTransform_MagneticField (\<lambda>_. mag1) 0 1 cycle =
       doTransform_MagneticField (\<lambda>_. mag1) 0 1 cycle_far
   \<and> angular_velocity (doTransform_Imu (\<lambda>_. imu1) 0 1 cycle_far 1) =
       \<lparr>vector_x = 3, vector_y = 1, vector_z = 2\<rparr>
   \<and> magnetic_field (doTransform_MagneticField (\<lambda>_. mag1) 0 1 cycle_far 1) =
       \<lparr>vector_x = 3, vector_y = 1, vector_z = 2\<rparr>"
proof -
  have r: "rotation (transform cycle) = rotation (transform cycle_far)"
    by (simp add: cycle_def cycle_far_def)
  have h: "header cycle = header cycle_far"
    by (simp add: cycle_def cycle_far_def)
  have d: "translation (transform cycle) \<noteq> translation (transform cycle_far)"
    by (simp add: cycle_def cycle_far_def)
  have v: "angular_velocity (doTransform_Imu (\<lambda>_. imu1) 0 1 cycle_far 1) =
             \<lparr>vector_x = 3, vector_y = 1, vector_z = 2\<rparr>"
    by code_simp
  have w: "magnetic_field (doTransform_MagneticField (\<lambda>_. mag1) 0 1 cycle_far 1) =
             \<lparr>vector_x = 3, vector_y = 1, vector_z = 2\<rparr>"
    by code_simp
  from doTransform_translation_independent [OF r h, of "\<lambda>_. imu1" 0 1 "\<lambda>_. mag1"] r h d v w
  show ?thesis by blast
qed

text \<open>
  C10. The IMU and magnetic-field adapters are safe when the output object is the
  input object: the value left in the output is the same whether the output address is
  the input address or another one, and it is the spec's composite transform of the
  input sample as it was before the call.
\<close>

theorem doTransform_alias_safe:
  "doTransform_Imu s a a t a = doTransform_Imu s a b t b
   \<and> doTransform_Imu s a b t b = imu_transformed (s a) t
   \<and> doTransform_MagneticField m a a t a = doTransform_MagneticField m a b t b
   \<and> doTransform_MagneticField m a b t b = mag_transformed (m a) t"
  by (simp add: doTransform_Imu_eq doTransform_MagneticField_eq)

theorem doTransform_alias_safe_witness:
  "doTransform_Imu (\<lambda>_. imu1) 0 0 cycle 0 = doTransform_Imu (\<lambda>_. imu1) 0 1 cycle 1
   \<and> doTransform_Imu (\<lambda>_. imu1) 0 0 cycle 0 =
       \<lparr>header = map_header,
        orientation = \<lparr>quaternion_x = 0, quaternion_y = 3 / 5, quaternion_z = 4 / 5,
                       quaternion_w = 0\<rparr>,
        orientation_covariance = Array9 6 3 5 3 1 2 5 2 4,
        angular_velocity = \<lparr>vector_x = 3, vector_y = 1, vector_z = 2\<rparr>,
        angular_velocity_covariance = Array9 3 0 0 0 1 0 0 0 2,
        linear_acceleration = \<lparr>vector_x = 10, vector_y = 0, vector_z = 0\<rparr>,
        linear_acceleration_covariance = Array9 9 7 8 3 1 2 6 4 5\<rparr>
   \<and> doTransform_MagneticField (\<lambda>_. mag1) 0 0 cycle 0 =
       doTransform_MagneticField (\<lambda>_. mag1) 0 1 cycle 1
   \<and> doTransform_MagneticField (\<lambda>_. mag1) 0 0 cycle 0 =
       \<lparr>header = map_header,
        magnetic_field = \<lparr>vector_x = 3, vector_y = 1, vector_z = 2\<rparr>,
        magnetic_field_covariance = Array9 3 0 0 0 1 0 0 0 2\<rparr>"
proof -
  have v: "doTransform_Imu (\<lambda>_. imu1) 0 0 cycle 0 =
       \<lparr>header = map_header,
        orientation = \<lparr>quaternion_x = 0, quaternion_y = 3 / 5, quaternion_z = 4 / 5,
                       quaternion_w = 0\<rparr>,
        orientation_covariance = Array9 6 3 5 3 1 2 5 2 4,
        angular_velocity = \<lparr>vector_x = 3, vector_y = 1, vector_z = 2\<rparr>,
        angular_velocity_covariance = Array9 3 0 0 0 1 0 0 0 2,
        linear_acceleration = \<lparr>vector_x = 10, vector_y = 0, vector_z = 0\<rparr>,
        linear_acceleration_covariance = Array9 9 7 8 3 1 2 6 4 5\<rparr>"
    by code_simp
  have w: "doTransform_MagneticField (\<lambda>_. mag1) 0 0 cycle 0 =
       \<lparr>header = map_header,
        magnetic_field = \<lparr>vector_x = 3, vector_y = 1, vector_z = 2\<rparr>,
        magnetic_field_covariance = Array9 3 0 0 0 1 0 0 0 2\<rparr>"
    by code_simp
  from doTransform_alias_safe [of "\<lambda>_. imu1" 0 cycle 1 "\<lambda>_. mag1"] v w
  show ?thesis by blast
qed

section \<open>The point-cloud adapter as a function of the input cloud\<close>

lemma pc_body_eq:
  assumes "i < length (data (s b))" and "data (s b) ! i = data (s a) ! i"
  shows "pc_body T a b i s =
           s(b := (s b)\<lparr>data := (data (s b))[i := transform_pt T (data (s a) ! i)]\<rparr>)"
  using assms
  by (cases "a = b")
     (simp_all add: pc_body_def write_x_def write_y_def write_z_def read_point_def
        transform_pt_def Let_def)

text \<open>
  The loop invariant: from point \<open>i\<close> on, the output cloud still holds the input's points
  (they are one object, or the output is the copy made by the first statement); the loop
  leaves the points before \<open>i\<close> as they are and transforms the others.
\<close>

lemma pc_loop_eq:
  "i \<le> n \<Longrightarrow> length (data (s a)) = n \<Longrightarrow> length (data (s b)) = n \<Longrightarrow>
   (\<forall>k. i \<le> k \<and> k < n \<longrightarrow> data (s b) ! k = data (s a) ! k) \<Longrightarrow>
   pc_loop T a b i n s =
     s(b := (s b)\<lparr>data := take i (data (s b)) @ map (transform_pt T) (drop i (data (s a)))\<rparr>)"
proof (induction T a b i n s rule: pc_loop.induct)
  case (1 t p_in p_out i n s)
  note prems = "1.prems"
  show ?case
  proof (cases "i < n")
    case False
    with prems have "i = n" by simp
    with prems show ?thesis
      by (subst pc_loop.simps) simp
  next
    case True
    let ?f = "transform_pt t"
    let ?s' = "s(p_out := (s p_out)\<lparr>data := (data (s p_out))[i := ?f (data (s p_in) ! i)]\<rparr>)"
    have here: "data (s p_out) ! i = data (s p_in) ! i"
      using True prems(4) by simp
    have body: "pc_body t p_in p_out i s = ?s'"
      using True prems(3) here by (intro pc_body_eq) simp_all
    have len_in: "length (data (?s' p_in)) = n"
      using prems(2,3) by simp
    have len_out: "length (data (?s' p_out)) = n"
      using prems(3) by simp
    have agree: "\<forall>k. Suc i \<le> k \<and> k < n \<longrightarrow> data (?s' p_out) ! k = data (?s' p_in) ! k"
    proof (intro allI impI)
      fix k assume k: "Suc i \<le> k \<and> k < n"
      then have "data (s p_out) ! k = data (s p_in) ! k"
        using prems(4) by simp
      with k show "data (?s' p_out) ! k = data (?s' p_in) ! k"
        by (cases "p_in = p_out") simp_all
    qed
    have "Suc i \<le> n"
      using True by simp
    from "1.IH" [OF True, unfolded body, OF this len_in len_out agree]
    have IH: "pc_loop t p_in p_out (Suc i) n ?s' =
        ?s'(p_out := (?s' p_out)\<lparr>data := take (Suc i) (data (?s' p_out)) @
               map ?f (drop (Suc i) (data (?s' p_in)))\<rparr>)" .
    have dr: "drop (Suc i) (data (?s' p_in)) = drop (Suc i) (data (s p_in))"
      by (cases "p_in = p_out") simp_all
    have tk: "take (Suc i) (data (?s' p_out)) = take i (data (s p_out)) @ [?f (data (s p_in) ! i)]"
      using True prems(3) by (simp add: take_Suc_conv_app_nth)
    have dr2: "drop i (data (s p_in)) = data (s p_in) ! i # drop (Suc i) (data (s p_in))"
      using True prems(2) by (simp add: Cons_nth_drop_Suc)
    have "pc_loop t p_in p_out i n s = pc_loop t p_in p_out (Suc i) n ?s'"
      using True by (subst pc_loop.simps) (simp add: body)
    also have "\<dots> = ?s'(p_out := (?s' p_out)\<lparr>data := take (Suc i) (data (?s' p_out)) @
               map ?f (drop (Suc i) (data (?s' p_in)))\<rparr>)"
      by (rule IH)
    also have "\<dots> = s(p_out := (s p_out)\<lparr>data := take i (data (s p_out)) @
               map ?f (drop i (data (s p_in)))\<rparr>)"
      unfolding dr tk dr2 by simp
    finally show ?thesis .
  qed
qed

lemma doTransform_PointCloud2_eq:
  "doTransform_PointCloud2 narrow s a b t =
     s(b := (s a)\<lparr>header := header t,
                  data := map (transform_pt (pc_affine narrow t)) (data (s a))\<rparr>)"
proof -
  let ?s2 = "(s(b := s a))(b := ((s(b := s a)) b)\<lparr>header := header t\<rparr>)"
  have "pc_loop (pc_affine narrow t) a b 0 (length (data (?s2 a))) ?s2 =
          ?s2(b := (?s2 b)\<lparr>data := take 0 (data (?s2 b)) @
                 map (transform_pt (pc_affine narrow t)) (drop 0 (data (?s2 a)))\<rparr>)"
    by (rule pc_loop_eq) simp_all
  then show ?thesis
    by (cases "a = b") (simp_all add: doTransform_PointCloud2_def Let_def)
qed

lemma rest_transform_pt: "rest (transform_pt T p) = rest p"
  by (simp add: transform_pt_def Let_def)

text \<open>
  C8. The point-cloud adapter tolerates the output object being the input object: for
  every cloud and transform, the cloud left at the output address is the same whether
  that address is the input's or another one.
\<close>

theorem doTransform_PointCloud2_alias:
  "doTransform_PointCloud2 narrow s a a t a = doTransform_PointCloud2 narrow s a b t b"
  by (simp add: doTransform_PointCloud2_eq)

theorem doTransform_PointCloud2_alias_witness:
  "doTransform_PointCloud2 narrow32 (\<lambda>_. cloud2) 0 0 cycle 0 =
     doTransform_PointCloud2 narrow32 (\<lambda>_. cloud2) 0 1 cycle 1
   \<and> data (doTransform_PointCloud2 narrow32 (\<lambda>_. cloud2) 0 0 cycle 0) =
       [\<lparr>px = 4, py = 6, pz = 6, rest = [1, 2, 3, 4]\<rparr>,
        \<lparr>px = 6, py = 5, pz = 7, rest = [5, 6, 7, 8]\<rparr>]"
proof -
  have v: "data (doTransform_PointCloud2 narrow32 (\<lambda>_. cloud2) 0 0 cycle 0) =
             [\<lparr>px = 4, py = 6, pz = 6, rest = [1, 2, 3, 4]\<rparr>,
              \<lparr>px = 6, py = 5, pz = 7, rest = [5, 6, 7, 8]\<rparr>]"
    by code_simp
  from doTransform_PointCloud2_alias [of narrow32 "\<lambda>_. cloud2" 0 cycle 1] v
  show ?thesis by blast
qed

text \<open>
  C9. Frame condition of the point-cloud adapter: the header of the output cloud is the
  header of the transform, whatever the input's header; height, width, the field
  descriptions, endianness, point step, row step and density flag are the input's; the
  output has the input's number of points and, point by point, the input's bytes
  outside the x, y and z channels.
\<close>

theorem doTransform_PointCloud2_frame:
  "header (doTransform_PointCloud2 narrow s a b t b) = header t
   \<and> height (doTransform_PointCloud2 narrow s a b t b) = height (s a)
   \<and> width (doTransform_PointCloud2 narrow s a b t b) = width (s a)
   \<and> point_fields (doTransform_PointCloud2 narrow s a b t b) = point_fields (s a)
   \<and> is_bigendian (doTransform_PointCloud2 narrow s a b t b) = is_bigendian (s a)
   \<and> point_step (doTransform_PointCloud2 narrow s a b t b) = point_step (s a)
   \<and> row_step (doTransform_PointCloud2 narrow s a b t b) = row_step (s a)
   \<and> is_dense (doTransform_PointCloud2 narrow s a b t b) = is_dense (s a)
   \<and> map rest (data (doTransform_PointCloud2 narrow s a b t b)) = map rest (data (s a))"
  by (simp add: doTransform_PointCloud2_eq rest_transform_pt comp_def)

theorem doTransform_PointCloud2_frame_witness:
  "header cloud2 \<noteq> header cycle
   \<and> header (doTransform_PointCloud2 narrow32 (\<lambda>_. cloud2) 0 1 cycle 1) = map_header
   \<and> point_step (doTransform_PointCloud2 narrow32 (\<lambda>_. cloud2) 0 1 cycle 1) = 16
   \<and> map rest (data (doTransform_PointCloud2 narrow32 (\<lambda>_. cloud2) 0 1 cycle 1)) =
       [[1, 2, 3, 4], [5, 6, 7, 8]]
   \<and> doTransform_PointCloud2 narrow32 (\<lambda>_. cloud2) 0 1 cycle 1 =
       cloud2\<lparr>header := map_header,
              data := [\<lparr>px = 4, py = 6, pz = 6, rest = [1, 2, 3, 4]\<rparr>,
                       \<lparr>px = 6, py = 5, pz = 7, rest = [5, 6, 7, 8]\<rparr>]\<rparr>"
proof -
  note t = doTransform_PointCloud2_frame [of narrow32 "\<lambda>_. cloud2" 0 1 cycle]
  have d: "header cloud2 \<noteq> header cycle"
    by code_simp
  have h: "header cycle = map_header"
    by code_simp
  have p: "point_step cloud2 = 16"
    by code_simp
  have r: "map rest (data cloud2) = [[1, 2, 3, 4], [5, 6, 7, 8]]"
    by code_simp
  have v: "doTransform_PointCloud2 narrow32 (\<lambda>_. cloud2) 0 1 cycle 1 =
       cloud2\<lparr>header := map_header,
              data := [\<lparr>px = 4, py = 6, pz = 6, rest = [1, 2, 3, 4]\<rparr>,
                       \<lparr>px = 6, py = 5, pz = 7, rest = [5, 6, 7, 8]\<rparr>]\<rparr>"
    by code_simp
  from t h have a: "header (doTransform_PointCloud2 narrow32 (\<lambda>_. cloud2) 0 1 cycle 1) = map_header"
    by simp
  from t p have b: "point_step (doTransform_PointCloud2 narrow32 (\<lambda>_. cloud2) 0 1 cycle 1) = 16"
    by simp
  from t r have c: "map rest (data (doTransform_PointCloud2 narrow32 (\<lambda>_. cloud2) 0 1 cycle 1)) =
       [[1, 2, 3, 4], [5, 6, 7, 8]]"
    by simp
  from d a b c v show ?thesis by blast
qed

text \<open>
  C3, as the spec states it: in the point-cloud path the rotation matrix is built from
  the double-precision quaternion and converted to single precision only where it is
  applied to a point. The adapter does otherwise. For the transform \<open>fine\<close>, whose
  rotation has the x component \<open>1 + 2 ^ - 24\<close>, the adapter's matrix is that of the
  converted quaternion, with x component 1, and sends the point \<open>(0, 1, 2)\<close> to
  \<open>(0, - 1, - 2)\<close>; the matrix of the unconverted quaternion has the diagonal coefficient
  \<open>- 1 - 2 ^ - 22 - 2 ^ - 47\<close>, which converts to \<open>- 1 - 2 ^ - 22\<close>, and sends the point
  elsewhere. The same happens for \<open>tilt\<close>, a rotation that is a unit quaternion to the
  precision of a double.
\<close>

theorem pc_rotation_built_late_counterexample:
  "narrow32 (16777217 / 16777216) = 1
   \<and> narrow32 (- (140737521909761 / 140737488355328)) = - (4194305 / 4194304)
   \<and> linear (pc_affine narrow32 fine) = Mat3 1 0 0 0 (- 1) 0 0 0 (- 1)
   \<and> linear (pc_affine_late narrow32 fine) =
       Mat3 1 0 0 0 (- (4194305 / 4194304)) 0 0 0 (- (4194305 / 4194304))
   \<and> read_point (doTransform_PointCloud2 narrow32 (\<lambda>_. cloud2) 0 1 fine 1) 1 = Vec3 0 (- 1) (- 2)
   \<and> affine_apply (pc_affine_late narrow32 fine) (read_point cloud2 1) =
       Vec3 0 (- (4194305 / 4194304)) (- (4194305 / 2097152))
   \<and> read_point (doTransform_PointCloud2 narrow32 (\<lambda>_. cloud2) 0 1 fine 1) 1 \<noteq>
       affine_apply (pc_affine_late narrow32 fine) (read_point cloud2 1)
   \<and> linear (pc_affine narrow32 tilt) \<noteq> linear (pc_affine_late narrow32 tilt)
   \<and> read_point (doTransform_PointCloud2 narrow32 (\<lambda>_. cloud2) 0 1 tilt 1) 0 \<noteq>
       affine_apply (pc_affine_late narrow32 tilt) (read_point cloud2 0)"
  by code_simp

text \<open>
  C3, amended. The seven double-precision components of the transform are converted to
  single precision when the single-precision translation and quaternion are made, before
  the rotation matrix is built: the linear part of the adapter's transform is the matrix
  of the converted quaternion, and the store the adapter leaves depends on the
  transform only through its header and its converted components.
\<close>

theorem pc_rotation_narrowed_first:
  "linear (pc_affine narrow t) = toRotationMatrix (pc_rotation narrow t)
   \<and> (pc_rotation narrow t = pc_rotation narrow t' \<and>
      pc_translation narrow t = pc_translation narrow t' \<and> header t = header t' \<longrightarrow>
        doTransform_PointCloud2 narrow s a b t = doTransform_PointCloud2 narrow s a b t')"
  by (cases "pc_translation narrow t"; cases "pc_translation narrow t'")
     (simp add: doTransform_PointCloud2_eq pc_affine_def translation_times_rot_def
        affine_of_rot_def)

theorem pc_rotation_narrowed_first_witness:
  "rotation (transform fine) \<noteq> rotation (transform coarse)
   \<and> pc_rotation narrow32 fine = Quat 0 1 0 0
   \<and> pc_rotation narrow32 coarse = Quat 0 1 0 0
   \<and> pc_translation narrow32 fine = pc_translation narrow32 coarse
   \<and> header fine = header coarse
   \<and> linear (pc_affine narrow32 fine) = toRotationMatrix (Quat 0 1 0 0)
   \<and> doTransform_PointCloud2 narrow32 (\<lambda>_. cloud2) 0 1 fine =
       doTransform_PointCloud2 narrow32 (\<lambda>_. cloud2) 0 1 coarse"
proof -
  note t = pc_rotation_narrowed_first [of narrow32 fine coarse "\<lambda>_. cloud2" 0 1]
  have d: "rotation (transform fine) \<noteq> rotation (transform coarse)"
    by code_simp
  have rf: "pc_rotation narrow32 fine = Quat 0 1 0 0"
    by code_simp
  have rc: "pc_rotation narrow32 coarse = Quat 0 1 0 0"
    by code_simp
  have tr: "pc_translation narrow32 fine = pc_translation narrow32 coarse"
    by code_simp
  have h: "header fine = header coarse"
    by code_simp
  from t rf have l: "linear (pc_affine narrow32 fine) = toRotationMatrix (Quat 0 1 0 0)"
    by simp
  from t rf rc tr h
  have e: "doTransform_PointCloud2 narrow32 (\<lambda>_. cloud2) 0 1 fine =
             doTransform_PointCloud2 narrow32 (\<lambda>_. cloud2) 0 1 coarse"
    by simp
  from d rf rc tr h l e show ?thesis by blast
qed

section \<open>The point-cloud adapter with the field check: points, length and exceptions\<close>

lemma pc_body_with_eq:
  assumes "i < length (data (s b))" and "data (s b) ! i = data (s a) ! i"
  shows "pc_body_with app T a b i s =
           s(b := (s b)\<lparr>data := (data (s b))[i := transform_pt_with app T (data (s a) ! i)]\<rparr>)"
  using assms
  by (cases "a = b")
     (simp_all add: pc_body_with_def write_x_def write_y_def write_z_def read_point_def
        transform_pt_with_def Let_def)

lemma pc_loop_with_eq:
  "i \<le> n \<Longrightarrow> length (data (s a)) = n \<Longrightarrow> length (data (s b)) = n \<Longrightarrow>
   (\<forall>k. i \<le> k \<and> k < n \<longrightarrow> data (s b) ! k = data (s a) ! k) \<Longrightarrow>
   pc_loop_with app T a b i n s =
     s(b := (s b)\<lparr>data := take i (data (s b)) @
                          map (transform_pt_with app T) (drop i (data (s a)))\<rparr>)"
proof (induction app T a b i n s rule: pc_loop_with.induct)
  case (1 app t p_in p_out i n s)
  note prems = "1.prems"
  show ?case
  proof (cases "i < n")
    case False
    with prems have "i = n" by simp
    with prems show ?thesis
      by (subst pc_loop_with.simps) simp
  next
    case True
    let ?f = "transform_pt_with app t"
    let ?s' = "s(p_out := (s p_out)\<lparr>data := (data (s p_out))[i := ?f (data (s p_in) ! i)]\<rparr>)"
    have here: "data (s p_out) ! i = data (s p_in) ! i"
      using True prems(4) by simp
    have body: "pc_body_with app t p_in p_out i s = ?s'"
      using True prems(3) here by (intro pc_body_with_eq) simp_all
    have len_in: "length (data (?s' p_in)) = n"
      using prems(2,3) by simp
    have len_out: "length (data (?s' p_out)) = n"
      using prems(3) by simp
    have agree: "\<forall>k. Suc i \<le> k \<and> k < n \<longrightarrow> data (?s' p_out) ! k = data (?s' p_in) ! k"
    proof (intro allI impI)
      fix k assume k: "Suc i \<le> k \<and> k < n"
      then have "data (s p_out) ! k = data (s p_in) ! k"
        using prems(4) by simp
      with k show "data (?s' p_out) ! k = data (?s' p_in) ! k"
        by (cases "p_in = p_out") simp_all
    qed
    have "Suc i \<le> n"
      using True by simp
    from "1.IH" [OF True, unfolded body, OF this len_in len_out agree]
    have IH: "pc_loop_with app t p_in p_out (Suc i) n ?s' =
        ?s'(p_out := (?s' p_out)\<lparr>data := take (Suc i) (data (?s' p_out)) @
               map ?f (drop (Suc i) (data (?s' p_in)))\<rparr>)" .
    have dr: "drop (Suc i) (data (?s' p_in)) = drop (Suc i) (data (s p_in))"
      by (cases "p_in = p_out") simp_all
    have tk: "take (Suc i) (data (?s' p_out)) = take i (data (s p_out)) @ [?f (data (s p_in) ! i)]"
      using True prems(3) by (simp add: take_Suc_conv_app_nth)
    have dr2: "drop i (data (s p_in)) = data (s p_in) ! i # drop (Suc i) (data (s p_in))"
      using True prems(2) by (simp add: Cons_nth_drop_Suc)
    have "pc_loop_with app t p_in p_out i n s = pc_loop_with app t p_in p_out (Suc i) n ?s'"
      using True by (subst pc_loop_with.simps) (simp add: body)
    also have "\<dots> = ?s'(p_out := (?s' p_out)\<lparr>data := take (Suc i) (data (?s' p_out)) @
               map ?f (drop (Suc i) (data (?s' p_in)))\<rparr>)"
      by (rule IH)
    also have "\<dots> = s(p_out := (s p_out)\<lparr>data := take i (data (s p_out)) @
               map ?f (drop i (data (s p_in)))\<rparr>)"
      unfolding dr tk dr2 by simp
    finally show ?thesis .
  qed
qed

lemma has_field_header: "has_field name (p\<lparr>header := h\<rparr>) = has_field name p"
  by (simp add: has_field_def)

lemma doTransform_PointCloud2_full_eq:
  "doTransform_PointCloud2_full mk app narrow s a b t =
     (if has_field ''x'' (s a) \<and> has_field ''y'' (s a) \<and> has_field ''z'' (s a)
      then Returned (s(b := (s a)\<lparr>header := header t,
              data := map (transform_pt_with app
                             (mk (pc_translation narrow t) (pc_rotation narrow t)))
                          (data (s a))\<rparr>))
      else Thrown (s(b := (s a)\<lparr>header := header t\<rparr>)))"
proof -
  let ?T = "mk (pc_translation narrow t) (pc_rotation narrow t)"
  let ?s2 = "(s(b := s a))(b := ((s(b := s a)) b)\<lparr>header := header t\<rparr>)"
  have loop: "pc_loop_with app ?T a b 0 (length (data (?s2 a))) ?s2 =
          ?s2(b := (?s2 b)\<lparr>data := take 0 (data (?s2 b)) @
                 map (transform_pt_with app ?T) (drop 0 (data (?s2 a)))\<rparr>)"
    by (rule pc_loop_with_eq) simp_all
  have fields: "has_field name (?s2 a) = has_field name (s a)"
               "has_field name (?s2 b) = has_field name (s a)" for name
    by (cases "a = b"; simp add: has_field_header)+
  show ?thesis
    unfolding doTransform_PointCloud2_full_def Let_def fields loop
    by (cases "a = b") simp_all
qed

text \<open>
  With the exact operations in the place of Eigen's, a call on a cloud that has the
  three fields returns the store of the first model, and the exact operations are the
  spec's \<open>transformPoint\<close>.
\<close>

lemma transform_pt_with_exact: "transform_pt_with affine_apply T = transform_pt T"
  by (simp add: transform_pt_with_def transform_pt_def fun_eq_iff)

lemma doTransform_PointCloud2_full_exact:
  "has_field ''x'' (s a) \<Longrightarrow> has_field ''y'' (s a) \<Longrightarrow> has_field ''z'' (s a) \<Longrightarrow>
   doTransform_PointCloud2_full translation_times_rot affine_apply narrow s a b t =
     Returned (doTransform_PointCloud2 narrow s a b t)"
  by (simp add: doTransform_PointCloud2_full_eq doTransform_PointCloud2_eq
        transform_pt_with_exact pc_affine_def)

lemma affine_apply_translation_times_rot:
  "affine_apply (translation_times_rot tr q) v = transformPoint q tr v"
  by (cases v; cases tr; cases "toRotationMatrix q")
     (simp add: translation_times_rot_def affine_of_rot_def transformPoint_def)





end
